theory Spec2Isabelle
  imports Complex_Main "HOL-Library.AList"
begin

section \<open>Data model\<close>

text \<open>
  The repository holds two near-duplicate socket servers.  \<^verbatim>\<open>src/server.js\<close> is the
  alternating variant (\<^verbatim>\<open>submit_attack\<close> / \<^verbatim>\<open>submit_defense\<close>);
  \<^verbatim>\<open>src/unnamed/part_000\<close> is the simultaneous variant (\<^verbatim>\<open>submit_move\<close> and
  \<^verbatim>\<open>processBattle\<close>).  Handlers that exist under the same name in both files keep the
  plain name for \<^verbatim>\<open>server.js\<close> and carry the suffix \<open>_sim\<close> for \<^verbatim>\<open>part_000\<close>.

  JavaScript numbers are modelled as \<open>int\<close> (the stats and healths, which the code only
  ever creates as the integers 100, 15 and 5, and the jitter) and \<open>real\<close> (the three
  multipliers); on these values every product, difference and sum the code computes is
  exact in double precision.  \<^verbatim>\<open>null\<close> is \<open>None\<close>.  Every source of randomness is a
  parameter of the handler that draws from it: the integer \<^verbatim>\<open>Math.floor(Math.random() * 5)\<close>
  for a damage, the string \<^verbatim>\<open>Math.random().toString(36)\<close> for a session id.

  The object \<^verbatim>\<open>games\<close> is an association list of its own properties, in the order of
  their creation.  Reading \<^verbatim>\<open>games[gameId]\<close> also finds what a plain object inherits from
  \<^verbatim>\<open>Object.prototype\<close>, and \<^verbatim>\<open>Object.values(games)\<close> lists array-index keys first.
\<close>

datatype MoveType = Rock | Paper | Scissors

datatype TurnType = Attack | Defend

datatype Phase = Waiting | Selection | Battle | Game_over

text \<open>The strings \<^verbatim>\<open>"super"\<close>, \<^verbatim>\<open>"normal"\<close> and \<^verbatim>\<open>"not"\<close>.\<close>

datatype Tier = T_super | T_normal | T_not

record Effectiveness =
  multiplier :: real
  type :: Tier

record Player =
  player_id :: string
  name :: string
  health :: int
  maxHealth :: int
  attack :: int
  defense :: int
  currentAttackType :: "MoveType option"
  currentDefenseType :: "MoveType option"

text \<open>The players of \<^verbatim>\<open>part_000\<close> carry one more field.\<close>

record RPlayer = Player +
  ready :: bool

record 'p Game =
  game_id :: string
  players :: "'p list"
  currentTurn :: "string option"
  phase :: Phase
  winner :: "string option"
  gameLog :: "string list"

record PendingAttack =
  pa_playerId :: string
  pa_attackType :: "MoveType option"

text \<open>The sessions of \<^verbatim>\<open>server.js\<close> carry two more fields.\<close>

record 'p TGame = "'p Game" +
  currentTurnType :: TurnType
  pendingAttack :: "PendingAttack option"

type_synonym SimGame = "RPlayer Game"

type_synonym AltGame = "Player TGame"

datatype JsError = TypeError

section \<open>Effectiveness and damage\<close>

definition SUPER_EFFECTIVE :: real where
  "SUPER_EFFECTIVE = 2.0"

definition NORMAL_EFFECTIVE :: real where
  "NORMAL_EFFECTIVE = 1.0"

definition NOT_EFFECTIVE :: real where
  "NOT_EFFECTIVE = 0.5"

definition getEffectivenessMultiplier ::
  "MoveType option \<Rightarrow> MoveType option \<Rightarrow> Effectiveness" where
  "getEffectivenessMultiplier attackType defenseType =
     (if (attackType = Some Rock \<and> defenseType = Some Scissors) \<or>
         (attackType = Some Scissors \<and> defenseType = Some Paper) \<or>
         (attackType = Some Paper \<and> defenseType = Some Rock)
      then \<lparr>multiplier = SUPER_EFFECTIVE, type = T_super\<rparr>
      else if attackType = defenseType
      then \<lparr>multiplier = NORMAL_EFFECTIVE, type = T_normal\<rparr>
      else \<lparr>multiplier = NOT_EFFECTIVE, type = T_not\<rparr>)"

text \<open>
  The expression
  \<^verbatim>\<open>Math.max(5, Math.floor(a.attack * multiplier - d.defense + Math.floor(Math.random() * 5)))\<close>,
  which \<^verbatim>\<open>server.js\<close> line 260 and \<^verbatim>\<open>part_000\<close> lines 78 and 87 spell out in place.
  \<open>jitter\<close> is the integer \<^verbatim>\<open>Math.floor(Math.random() * 5)\<close>, one of 0, 1, 2, 3, 4.
\<close>

definition damage :: "int \<Rightarrow> real \<Rightarrow> int \<Rightarrow> int \<Rightarrow> int" where
  "damage atk mult dfn jitter = max 5 \<lfloor>of_int atk * mult - of_int dfn + of_int jitter\<rfloor>"

section \<open>Strings\<close>

text \<open>A move inside a template literal; \<^verbatim>\<open>null\<close> prints as \<^verbatim>\<open>null\<close>.\<close>

fun moveStr :: "MoveType option \<Rightarrow> string" where
  "moveStr (Some Rock) = ''rock''"
| "moveStr (Some Paper) = ''paper''"
| "moveStr (Some Scissors) = ''scissors''"
| "moveStr None = ''null''"

definition digit_char :: "nat \<Rightarrow> char" where
  "digit_char n = ''0123456789'' ! (n mod 10)"

function natStr :: "nat \<Rightarrow> string" where
  "natStr n = (if n < 10 then [digit_char n] else natStr (n div 10) @ [digit_char (n mod 10)])"
  by pat_completeness auto
termination
  by (relation "measure (\<lambda>n. n)") auto

declare natStr.simps [simp del]

text \<open>An integer inside a template literal.\<close>

definition numStr :: "int \<Rightarrow> string" where
  "numStr i = (if i < 0 then CHR ''-'' # natStr (nat (- i)) else natStr (nat i))"

definition toUpperChar :: "char \<Rightarrow> char" where
  "toUpperChar c =
     (case map_of (zip ''abcdefghijklmnopqrstuvwxyz'' ''ABCDEFGHIJKLMNOPQRSTUVWXYZ'') c of
        Some u \<Rightarrow> u
      | None \<Rightarrow> c)"

text \<open>
  \<^verbatim>\<open>Math.random().toString(36).substring(2, 8).toUpperCase()\<close>: the argument is the string
  \<^verbatim>\<open>Math.random().toString(36)\<close>, of the form \<^verbatim>\<open>0.xxxxxxxx\<close>.  Nothing else is read: the
  registry is not consulted.
\<close>

definition generateGameId :: "string \<Rightarrow> string" where
  "generateGameId rnd36 = map toUpperChar (take 6 (drop 2 rnd36))"

text \<open>\<^verbatim>\<open>"It's super effective!"\<close> and its sibling, chosen from the tier.\<close>

definition effectivenessText :: "Tier \<Rightarrow> string" where
  "effectivenessText t =
     (if t = T_super then ''It's super effective!''
      else if t = T_not then ''It's not very effective...''
      else [])"

text \<open>\<^verbatim>\<open>p?.name || "Opponent"\<close>: a missing player and an empty name both give the default.\<close>

definition nameOrOpponent :: "'a Player_scheme option \<Rightarrow> string" where
  "nameOrOpponent p =
     (case p of
        None \<Rightarrow> ''Opponent''
      | Some q \<Rightarrow> if name q = [] then ''Opponent'' else name q)"

section \<open>Effects of a handler\<close>

datatype 'g Payload =
    Error string
  | Game_joined string "'g option"
  | Game_state_update 'g
  | Available_games "(string \<times> string \<times> nat) list"
  | Attack_animation string string "MoveType option" "MoveType option" Tier
  | Game_over_event "string option"

text \<open>\<^verbatim>\<open>socket.emit\<close>, \<^verbatim>\<open>io.to(room).emit\<close> and \<^verbatim>\<open>io.emit\<close>.\<close>

datatype Target = To_socket | To_room string | To_all

datatype 'g Effect =
    Emit Target "'g Payload"
  | Socket_join string
  | Socket_leave string

text \<open>
  What a \<^verbatim>\<open>setTimeout\<close> callback does when it fires: send the session as it is then, send
  it with the phase overridden, send a fixed animation, or delete the registry entry.
\<close>

datatype Task =
    Emit_state string
  | Emit_state_selection string
  | Emit_animation string string string "MoveType option" "MoveType option" Tier
  | Delete_game string

text \<open>
  The result of running a handler: the registry afterwards, what was emitted, the timers
  set (delay in milliseconds), and the exception that ended the handler, if any.  A
  handler that throws keeps the mutations made before the throw.
\<close>

record 'g Outcome =
  games :: "(string \<times> 'g) list"
  effects :: "'g Effect list"
  timers :: "(nat \<times> Task) list"
  thrown :: "JsError option"

definition reply_error :: "(string \<times> 'g) list \<Rightarrow> string \<Rightarrow> 'g Outcome" where
  "reply_error gs msg =
     \<lparr>games = gs, effects = [Emit To_socket (Error msg)], timers = [], thrown = None\<rparr>"

text \<open>
  \<^verbatim>\<open>x = xs.find(pred); x.f = v\<close>: the first element that satisfies the predicate is
  changed in place.
\<close>

fun update_first :: "('a \<Rightarrow> bool) \<Rightarrow> ('a \<Rightarrow> 'a) \<Rightarrow> 'a list \<Rightarrow> 'a list" where
  "update_first P f [] = []"
| "update_first P f (x # xs) = (if P x then f x # xs else x # update_first P f xs)"

text \<open>A fired timer; only the deletion touches the registry.\<close>

fun fire :: "(string \<times> 'g) list \<Rightarrow> Task \<Rightarrow> (string \<times> 'g) list" where
  "fire gs (Delete_game gameId) = AList.delete gameId gs"
| "fire gs _ = gs"

section \<open>The registry object\<close>

text \<open>
  The property names a plain object inherits from \<^verbatim>\<open>Object.prototype\<close>.  Each of them
  reads as a function or an object: truthy, and without a \<^verbatim>\<open>players\<close> property.
\<close>

definition objectPrototypeNames :: "string list" where
  "objectPrototypeNames =
     [''constructor'', ''__defineGetter__'', ''__defineSetter__'', ''hasOwnProperty'',
      ''__lookupGetter__'', ''__lookupSetter__'', ''isPrototypeOf'', ''propertyIsEnumerable'',
      ''toString'', ''valueOf'', ''__proto__'', ''toLocaleString'']"

text \<open>
  What \<^verbatim>\<open>games[gameId]\<close> evaluates to: a stored session, an inherited value, or
  \<^verbatim>\<open>undefined\<close>.  An own property hides an inherited one.
\<close>

datatype 'g Property = Own 'g | Inherited | Absent

definition getGame :: "(string \<times> 'g) list \<Rightarrow> string \<Rightarrow> 'g Property" where
  "getGame gs gameId =
     (case map_of gs gameId of
        Some game \<Rightarrow> Own game
      | None \<Rightarrow> if gameId \<in> set objectPrototypeNames then Inherited else Absent)"

text \<open>
  A handler that got an inherited value passes its \<^verbatim>\<open>!game\<close> guard; its next statement
  reads \<^verbatim>\<open>game.players.length\<close>, \<^verbatim>\<open>game.players.find\<close> or \<^verbatim>\<open>game.players.filter\<close> and
  throws, with nothing sent and nothing changed.
\<close>

definition type_error :: "(string \<times> 'g) list \<Rightarrow> 'g Outcome" where
  "type_error gs = \<lparr>games = gs, effects = [], timers = [], thrown = Some TypeError\<rparr>"

text \<open>
  An array index: the canonical decimal string of an integer from 0 to 4294967294.
\<close>

definition decimalValue :: "string \<Rightarrow> nat" where
  "decimalValue s = foldl (\<lambda>n c. 10 * n + (of_char c - 48)) 0 s"

definition isArrayIndex :: "string \<Rightarrow> bool" where
  "isArrayIndex s =
     (s \<noteq> [] \<and> list_all (\<lambda>c. c \<in> set ''0123456789'') s
      \<and> (s = ''0'' \<or> hd s \<in> set ''123456789'') \<and> decimalValue s < 4294967295)"

text \<open>
  \<^verbatim>\<open>Object.values(games)\<close>: the array-index keys in ascending numeric order, then the other
  keys in the order of their creation.
\<close>

definition objectValues :: "(string \<times> 'g) list \<Rightarrow> 'g list" where
  "objectValues gs =
     map snd (sort_key (\<lambda>kg. decimalValue (fst kg)) (filter (\<lambda>kg. isArrayIndex (fst kg)) gs)
              @ filter (\<lambda>kg. \<not> isArrayIndex (fst kg)) gs)"

text \<open>
  The listing both servers compute:
  \<^verbatim>\<open>Object.values(games).filter(...).map(game => ({id, host: game.players[0].name, players}))\<close>.
  Reading \<^verbatim>\<open>.name\<close> of a missing first player throws.
\<close>

definition availableGames ::
  "(string \<times> ('a Player_scheme, 'b) Game_scheme) list \<Rightarrow> JsError + (string \<times> string \<times> nat) list" where
  "availableGames gs =
     (let avail = filter (\<lambda>game. phase game = Waiting \<and> length (players game) < 2)
                     (objectValues gs)
      in if list_ex (\<lambda>game. players game = []) avail then Inl TypeError
         else Inr (map (\<lambda>game. (game_id game, name (hd (players game)), length (players game)))
                     avail))"

section \<open>The simultaneous variant (\<^verbatim>\<open>src/unnamed/part_000\<close>)\<close>

text \<open>
  \<^verbatim>\<open>processBattle(game, io)\<close>.  \<open>jitter1\<close> and \<open>jitter2\<close> are the two values of
  \<^verbatim>\<open>Math.floor(Math.random() * 5)\<close>, in the order drawn.  The result is the session after the call,
  the messages sent and the timers set; with fewer than two players the first field read
  of the missing player throws before anything is changed.
\<close>

definition processBattle ::
  "SimGame \<Rightarrow> int \<Rightarrow> int \<Rightarrow> JsError + (SimGame \<times> SimGame Effect list \<times> (nat \<times> Task) list)" where
  "processBattle game jitter1 jitter2 =
     (case players game of
        player1 # player2 # rest \<Rightarrow>
          (let p1AttackType = currentAttackType player1;
               p2DefenseType = currentDefenseType player2;
               p1Effectiveness = getEffectivenessMultiplier p1AttackType p2DefenseType;
               p1Damage = damage (attack player1) (multiplier p1Effectiveness) (defense player2) jitter1;
               p2AttackType = currentAttackType player2;
               p1DefenseType = currentDefenseType player1;
               p2Effectiveness = getEffectivenessMultiplier p2AttackType p1DefenseType;
               p2Damage = damage (attack player2) (multiplier p2Effectiveness) (defense player1) jitter2;
               player2' = player2\<lparr>health := max 0 (health player2 - p1Damage)\<rparr>;
               player1' = player1\<lparr>health := max 0 (health player1 - p2Damage)\<rparr>;
               effectivenessText1 = effectivenessText (type p1Effectiveness);
               effectivenessText2 = effectivenessText (type p2Effectiveness);
               log = [name player1 @ '' attacks with '' @ moveStr p1AttackType @ '' for ''
                        @ numStr p1Damage @ '' damage! '' @ effectivenessText1,
                      name player2 @ '' attacks with '' @ moveStr p2AttackType @ '' for ''
                        @ numStr p2Damage @ '' damage! '' @ effectivenessText2]
                     @ gameLog game;
               animation1 = Emit (To_room (game_id game))
                  (Attack_animation (player_id player1) (player_id player2)
                     p1AttackType p2DefenseType (type p1Effectiveness));
               animation2 = (2000, Emit_animation (game_id game) (player_id player2)
                     (player_id player1) p2AttackType p1DefenseType (type p2Effectiveness));
               update = (4000, Emit_state (game_id game))
           in if health player1' \<le> 0 \<or> health player2' \<le> 0
              then
                (let w = (if health player1' \<le> 0 \<and> health player2' \<le> 0 then None
                          else if health player1' \<le> 0 then Some (player_id player2)
                          else Some (player_id player1));
                     line = (if health player1' \<le> 0 \<and> health player2' \<le> 0
                          then ''The battle ended in a draw!''
                          else if health player1' \<le> 0 then name player2 @ '' wins the battle!''
                          else name player1 @ '' wins the battle!'')
                 in Inr (game\<lparr>players := player1' # player2' # rest, phase := Game_over,
                              winner := w, gameLog := line # log\<rparr>,
                         [animation1, Emit (To_room (game_id game)) (Game_over_event w)],
                         [animation2, update]))
              else
                Inr (game\<lparr>players :=
                             player1'\<lparr>currentAttackType := None, currentDefenseType := None,
                                      ready := False\<rparr>
                           # player2'\<lparr>currentAttackType := None, currentDefenseType := None,
                                      ready := False\<rparr>
                           # rest,
                          phase := Selection, currentTurn := Some (player_id player1),
                          gameLog := log\<rparr>,
                     [animation1], [animation2, update]))
      | _ \<Rightarrow> Inl TypeError)"

definition create_game_sim ::
  "(string \<times> SimGame) list \<Rightarrow> string \<Rightarrow> string \<Rightarrow> string \<Rightarrow> SimGame Outcome" where
  "create_game_sim gs rnd36 playerId playerName =
     (let gameId = generateGameId rnd36;
          game = \<lparr>game_id = gameId,
                  players = [\<lparr>player_id = playerId, name = playerName, health = 100,
                              maxHealth = 100, attack = 15, defense = 5,
                              currentAttackType = None, currentDefenseType = None,
                              ready = False\<rparr>],
                  currentTurn = None, phase = Waiting, winner = None,
                  gameLog = [''Waiting for opponent to join...'']\<rparr>
      in \<lparr>games = AList.update gameId game gs,
          effects = [Socket_join gameId, Emit To_socket (Game_joined gameId None)],
          timers = [], thrown = None\<rparr>)"

definition join_game_sim ::
  "(string \<times> SimGame) list \<Rightarrow> string \<Rightarrow> string \<Rightarrow> string \<Rightarrow> SimGame Outcome" where
  "join_game_sim gs gameId playerId playerName =
     (case getGame gs gameId of
        Absent \<Rightarrow> reply_error gs ''Game not found''
      | Inherited \<Rightarrow> type_error gs
      | Own game \<Rightarrow>
          if length (players game) \<ge> 2 then reply_error gs ''Game is full''
          else
            (let players' = players game @
                   [\<lparr>player_id = playerId, name = playerName, health = 100,
                     maxHealth = 100, attack = 15, defense = 5,
                     currentAttackType = None, currentDefenseType = None,
                     ready = False\<rparr>];
                 game' = game\<lparr>players := players', phase := Selection,
                              currentTurn := Some (player_id (hd players')),
                              gameLog := [playerName @ '' joined the game. ''
                                          @ name (hd players') @ '' goes first!'']\<rparr>
             in \<lparr>games = AList.update gameId game' gs,
                 effects = [Socket_join gameId,
                            Emit (To_room gameId) (Game_state_update game'),
                            Emit To_socket (Game_joined gameId None)],
                 timers = [], thrown = None\<rparr>))"

definition get_available_games_sim :: "(string \<times> SimGame) list \<Rightarrow> SimGame Outcome" where
  "get_available_games_sim gs =
     (case availableGames gs of
        Inl e \<Rightarrow> \<lparr>games = gs, effects = [], timers = [], thrown = Some e\<rparr>
      | Inr l \<Rightarrow> \<lparr>games = gs, effects = [Emit To_socket (Available_games l)], timers = [],
                  thrown = None\<rparr>)"

definition submit_move ::
  "(string \<times> SimGame) list \<Rightarrow> string \<Rightarrow> string \<Rightarrow> MoveType option \<Rightarrow> MoveType option
     \<Rightarrow> int \<Rightarrow> int \<Rightarrow> SimGame Outcome" where
  "submit_move gs gameId playerId attackType defenseType jitter1 jitter2 =
     (case getGame gs gameId of
        Absent \<Rightarrow> reply_error gs ''Game not found''
      | Inherited \<Rightarrow> type_error gs
      | Own game \<Rightarrow>
          (case find (\<lambda>p. player_id p = playerId) (players game) of
             None \<Rightarrow> reply_error gs ''Player not found in game''
           | Some player \<Rightarrow>
               if currentTurn game \<noteq> Some playerId then reply_error gs ''Not your turn''
               else
                 (let players' = update_first (\<lambda>p. player_id p = playerId)
                        (\<lambda>p. p\<lparr>currentAttackType := attackType,
                                currentDefenseType := defenseType, ready := True\<rparr>)
                        (players game);
                      game1 = game\<lparr>players := players'\<rparr>;
                      allPlayersReady = list_all ready players'
                  in if allPlayersReady
                     then
                       (case processBattle game1 jitter1 jitter2 of
                          Inl e \<Rightarrow> \<lparr>games = AList.update gameId game1 gs, effects = [],
                                     timers = [], thrown = Some e\<rparr>
                        | Inr (game2, es, ts) \<Rightarrow>
                            \<lparr>games = AList.update gameId game2 gs, effects = es, timers = ts,
                             thrown = None\<rparr>)
                     else
                       (let game2 = game1\<lparr>currentTurn :=
                                (case find (\<lambda>p. player_id p \<noteq> playerId) players' of
                                   None \<Rightarrow> None
                                 | Some q \<Rightarrow> if player_id q = [] then None
                                             else Some (player_id q)),
                              gameLog := (name player
                                  @ '' has chosen their move. Waiting for opponent...'')
                                # gameLog game1\<rparr>
                        in \<lparr>games = AList.update gameId game2 gs,
                            effects = [Emit (To_room gameId) (Game_state_update game2)],
                            timers = [], thrown = None\<rparr>))))"

definition leave_game_sim ::
  "(string \<times> SimGame) list \<Rightarrow> string \<Rightarrow> string \<Rightarrow> SimGame Outcome" where
  "leave_game_sim gs gameId playerId =
     (case getGame gs gameId of
        Absent \<Rightarrow> \<lparr>games = gs, effects = [], timers = [], thrown = None\<rparr>
      | Inherited \<Rightarrow> type_error gs
      | Own game \<Rightarrow>
          (let otherPlayer = find (\<lambda>p. player_id p \<noteq> playerId) (players game);
               notice = (case otherPlayer of
                   None \<Rightarrow> []
                 | Some other \<Rightarrow>
                     [Emit (To_room gameId)
                        (Game_state_update
                           (game\<lparr>phase := Game_over, winner := Some (player_id other),
                                 gameLog :=
                                   (nameOrOpponent
                                      (find (\<lambda>p. player_id p = playerId) (players game))
                                    @ '' left the game.'') # gameLog game\<rparr>))])
           in \<lparr>games = gs, effects = notice @ [Socket_leave gameId],
               timers = [(5000, Delete_game gameId)], thrown = None\<rparr>))"

section \<open>The alternating variant (\<^verbatim>\<open>src/server.js\<close>)\<close>

text \<open>
  \<^verbatim>\<open>broadcastAvailableGames()\<close>, run as the last statement of a handler: it continues
  the outcome so far with the listing sent to every client, or with the exception.
\<close>

definition broadcastAvailableGames :: "AltGame Outcome \<Rightarrow> AltGame Outcome" where
  "broadcastAvailableGames out =
     (case availableGames (games out) of
        Inl e \<Rightarrow> out\<lparr>thrown := Some e\<rparr>
      | Inr l \<Rightarrow> out\<lparr>effects := effects out @ [Emit To_all (Available_games l)]\<rparr>)"

definition create_game ::
  "(string \<times> AltGame) list \<Rightarrow> string \<Rightarrow> string \<Rightarrow> string \<Rightarrow> AltGame Outcome" where
  "create_game gs rnd36 playerId playerName =
     (let gameId = generateGameId rnd36;
          game = \<lparr>game_id = gameId,
                  players = [\<lparr>player_id = playerId, name = playerName, health = 100,
                              maxHealth = 100, attack = 15, defense = 5,
                              currentAttackType = None, currentDefenseType = None\<rparr>],
                  currentTurn = None, phase = Waiting, winner = None,
                  gameLog = [''Waiting for opponent to join...''],
                  currentTurnType = Attack, pendingAttack = None\<rparr>
      in broadcastAvailableGames
           \<lparr>games = AList.update gameId game gs,
            effects = [Socket_join gameId, Emit To_socket (Game_joined gameId None)],
            timers = [], thrown = None\<rparr>)"

definition join_game ::
  "(string \<times> AltGame) list \<Rightarrow> string \<Rightarrow> string \<Rightarrow> string \<Rightarrow> AltGame Outcome" where
  "join_game gs gameId playerId playerName =
     (case getGame gs gameId of
        Absent \<Rightarrow> reply_error gs ''Game not found''
      | Inherited \<Rightarrow> type_error gs
      | Own game \<Rightarrow>
          if length (players game) \<ge> 2 then reply_error gs ''Game is full''
          else
            (let players' = players game @
                   [\<lparr>player_id = playerId, name = playerName, health = 100,
                     maxHealth = 100, attack = 15, defense = 5,
                     currentAttackType = None, currentDefenseType = None\<rparr>];
                 game' = game\<lparr>players := players', phase := Selection,
                              currentTurn := Some (player_id (hd players')),
                              currentTurnType := Attack, pendingAttack := None,
                              gameLog := [playerName @ '' joined the game. ''
                                          @ name (hd players')
                                          @ '' goes first with an attack!'']\<rparr>
             in broadcastAvailableGames
                  \<lparr>games = AList.update gameId game' gs,
                   effects = [Socket_join gameId,
                              Emit To_socket (Game_joined gameId (Some game'))],
                   timers = [(500, Emit_state_selection gameId)], thrown = None\<rparr>))"

definition get_available_games :: "(string \<times> AltGame) list \<Rightarrow> AltGame Outcome" where
  "get_available_games gs =
     (case availableGames gs of
        Inl e \<Rightarrow> \<lparr>games = gs, effects = [], timers = [], thrown = Some e\<rparr>
      | Inr l \<Rightarrow> \<lparr>games = gs, effects = [Emit To_socket (Available_games l)], timers = [],
                  thrown = None\<rparr>)"

text \<open>
  \<^verbatim>\<open>submit_attack\<close>.  When the session has no player with another id, \<^verbatim>\<open>defender\<close> is
  undefined and \<^verbatim>\<open>defender.id\<close> throws, after the attack has been stored.
\<close>

definition submit_attack ::
  "(string \<times> AltGame) list \<Rightarrow> string \<Rightarrow> string \<Rightarrow> MoveType option \<Rightarrow> AltGame Outcome" where
  "submit_attack gs gameId playerId attackType =
     (case getGame gs gameId of
        Absent \<Rightarrow> reply_error gs ''Game not found''
      | Inherited \<Rightarrow> type_error gs
      | Own game \<Rightarrow>
          (case find (\<lambda>p. player_id p = playerId) (players game) of
             None \<Rightarrow> reply_error gs ''Player not found in game''
           | Some player \<Rightarrow>
               if currentTurn game \<noteq> Some playerId \<or> currentTurnType game \<noteq> Attack
               then reply_error gs ''Not your turn to attack''
               else
                 (let players' = update_first (\<lambda>p. player_id p = playerId)
                        (\<lambda>p. p\<lparr>currentAttackType := attackType\<rparr>) (players game);
                      game1 = game\<lparr>players := players',
                                   pendingAttack := Some \<lparr>pa_playerId = playerId,
                                                          pa_attackType = attackType\<rparr>\<rparr>
                  in case find (\<lambda>p. player_id p \<noteq> playerId) players' of
                       None \<Rightarrow> \<lparr>games = AList.update gameId game1 gs, effects = [],
                                  timers = [], thrown = Some TypeError\<rparr>
                     | Some defender \<Rightarrow>
                         (let game2 = game1\<lparr>currentTurn := Some (player_id defender),
                                currentTurnType := Defend,
                                gameLog := (name player @ '' chose '' @ moveStr attackType
                                    @ '' attack. '' @ name defender
                                    @ '' must choose a defense.'') # gameLog game1\<rparr>
                          in \<lparr>games = AList.update gameId game2 gs,
                              effects = [Emit (To_room gameId) (Game_state_update game2)],
                              timers = [], thrown = None\<rparr>))))"

text \<open>
  \<^verbatim>\<open>submit_defense\<close>.  The handler checks neither the turn holder nor the turn type.
  \<^verbatim>\<open>game.pendingAttack.playerId\<close> throws when no attack is buffered, before anything is
  changed; \<^verbatim>\<open>attacker.attack\<close> throws when the buffered attacker is no longer in the
  session, after the defense has been stored.
\<close>

definition submit_defense ::
  "(string \<times> AltGame) list \<Rightarrow> string \<Rightarrow> string \<Rightarrow> MoveType option \<Rightarrow> int \<Rightarrow> AltGame Outcome" where
  "submit_defense gs gameId playerId defenseType jitter =
     (case getGame gs gameId of
        Absent \<Rightarrow> reply_error gs ''Game not found''
      | Inherited \<Rightarrow> type_error gs
      | Own game \<Rightarrow>
          (case find (\<lambda>p. player_id p = playerId) (players game) of
             None \<Rightarrow> reply_error gs ''Player not found in game''
           | Some defender \<Rightarrow>
               (case pendingAttack game of
                  None \<Rightarrow> \<lparr>games = gs, effects = [], timers = [], thrown = Some TypeError\<rparr>
                | Some pending \<Rightarrow>
                    (let attackerId = pa_playerId pending;
                         attackType = pa_attackType pending;
                         stored = update_first (\<lambda>p. player_id p = playerId)
                            (\<lambda>p. p\<lparr>currentDefenseType := defenseType\<rparr>) (players game)
                     in case find (\<lambda>p. player_id p = attackerId) (players game) of
                          None \<Rightarrow> \<lparr>games = AList.update gameId (game\<lparr>players := stored\<rparr>) gs,
                                     effects = [], timers = [], thrown = Some TypeError\<rparr>
                        | Some attacker \<Rightarrow>
                            (let eff = getEffectivenessMultiplier attackType defenseType;
                                 dmg = damage (attack attacker) (multiplier eff)
                                         (defense defender) jitter;
                                 newHealth = max 0 (health defender - dmg);
                                 players' = update_first (\<lambda>p. player_id p = playerId)
                                    (\<lambda>p. p\<lparr>currentDefenseType := defenseType,
                                            health := newHealth\<rparr>) (players game);
                                 log = [name defender @ '' defended with ''
                                          @ moveStr defenseType @ ''.'',
                                        name attacker @ CHR 0x27 # ''s '' @ moveStr attackType
                                          @ '' attack dealt '' @ numStr dmg @ '' damage! ''
                                          @ effectivenessText (type eff)]
                                       @ gameLog game;
                                 animation = Emit (To_room gameId)
                                    (Attack_animation (player_id attacker) (player_id defender)
                                       attackType defenseType (type eff));
                                 update = (2000, Emit_state gameId)
                             in if newHealth \<le> 0
                                then
                                  (let game' = game\<lparr>players := players', phase := Game_over,
                                         winner := Some (player_id attacker),
                                         gameLog := (name attacker @ '' wins the battle!'')
                                                    # log\<rparr>
                                   in \<lparr>games = AList.update gameId game' gs,
                                       effects = [animation,
                                          Emit (To_room gameId)
                                            (Game_over_event (Some (player_id attacker)))],
                                       timers = [update], thrown = None\<rparr>)
                                else
                                  (let game' = game\<lparr>players := players',
                                         currentTurn := Some (player_id defender),
                                         gameLog := log, currentTurnType := Attack,
                                         pendingAttack := None\<rparr>
                                   in \<lparr>games = AList.update gameId game' gs,
                                       effects = [animation], timers = [update],
                                       thrown = None\<rparr>))))))"

text \<open>
  \<^verbatim>\<open>leave_game\<close>.  The stored session only loses the players with the leaver's id; the
  forced phase, the winner and the departure line exist in the copy that is broadcast.
  The name is looked up after the filter, so the lookup finds nobody.
\<close>

definition leave_game ::
  "(string \<times> AltGame) list \<Rightarrow> string \<Rightarrow> string \<Rightarrow> AltGame Outcome" where
  "leave_game gs gameId playerId =
     (case getGame gs gameId of
        Absent \<Rightarrow> \<lparr>games = gs, effects = [], timers = [], thrown = None\<rparr>
      | Inherited \<Rightarrow> type_error gs
      | Own game \<Rightarrow>
          (let game1 = game\<lparr>players := filter (\<lambda>p. player_id p \<noteq> playerId) (players game)\<rparr>
           in if length (players game1) > 0
              then
                (let otherPlayer = hd (players game1);
                     snapshot = game1\<lparr>phase := Game_over,
                          winner := Some (player_id otherPlayer),
                          gameLog :=
                            (nameOrOpponent
                               (find (\<lambda>p. player_id p = playerId) (players game1))
                             @ '' left the game.'') # gameLog game1\<rparr>
                 in broadcastAvailableGames
                      \<lparr>games = AList.update gameId game1 gs,
                       effects = [Emit (To_room gameId) (Game_state_update snapshot),
                                  Socket_leave gameId],
                       timers = [(5000, Delete_game gameId)], thrown = None\<rparr>)
              else
                broadcastAvailableGames
                  \<lparr>games = AList.delete gameId gs, effects = [Socket_leave gameId],
                   timers = [], thrown = None\<rparr>))"

section \<open>Runs of a server\<close>

text \<open>
  What a server process receives, one event at a time: the client messages, with the
  random values the handler will draw, and the timers that fire.  A run starts from the
  empty registry.  A timer may fire at any later moment, so a run may fire any task at
  any point.
\<close>

datatype SimRequest =
    Sim_create string string string
  | Sim_join string string string
  | Sim_list
  | Sim_move string string "MoveType option" "MoveType option" int int
  | Sim_leave string string
  | Sim_timer Task

fun handle_sim :: "(string \<times> SimGame) list \<Rightarrow> SimRequest \<Rightarrow> SimGame Outcome" where
  "handle_sim gs (Sim_create rnd36 playerId playerName) =
     create_game_sim gs rnd36 playerId playerName"
| "handle_sim gs (Sim_join gameId playerId playerName) =
     join_game_sim gs gameId playerId playerName"
| "handle_sim gs Sim_list = get_available_games_sim gs"
| "handle_sim gs (Sim_move gameId playerId attackType defenseType jitter1 jitter2) =
     submit_move gs gameId playerId attackType defenseType jitter1 jitter2"
| "handle_sim gs (Sim_leave gameId playerId) = leave_game_sim gs gameId playerId"
| "handle_sim gs (Sim_timer task) =
     \<lparr>games = fire gs task, effects = [], timers = [], thrown = None\<rparr>"

definition run_sim :: "SimRequest list \<Rightarrow> (string \<times> SimGame) list" where
  "run_sim reqs = foldl (\<lambda>gs req. games (handle_sim gs req)) [] reqs"

datatype AltRequest =
    Alt_create string string string
  | Alt_join string string string
  | Alt_list
  | Alt_attack string string "MoveType option"
  | Alt_defense string string "MoveType option" int
  | Alt_leave string string
  | Alt_timer Task

fun handle_alt :: "(string \<times> AltGame) list \<Rightarrow> AltRequest \<Rightarrow> AltGame Outcome" where
  "handle_alt gs (Alt_create rnd36 playerId playerName) =
     create_game gs rnd36 playerId playerName"
| "handle_alt gs (Alt_join gameId playerId playerName) =
     join_game gs gameId playerId playerName"
| "handle_alt gs Alt_list = get_available_games gs"
| "handle_alt gs (Alt_attack gameId playerId attackType) =
     submit_attack gs gameId playerId attackType"
| "handle_alt gs (Alt_defense gameId playerId defenseType jitter) =
     submit_defense gs gameId playerId defenseType jitter"
| "handle_alt gs (Alt_leave gameId playerId) = leave_game gs gameId playerId"
| "handle_alt gs (Alt_timer task) =
     \<lparr>games = fire gs task, effects = [], timers = [], thrown = None\<rparr>"

definition run_alt :: "AltRequest list \<Rightarrow> (string \<times> AltGame) list" where
  "run_alt reqs = foldl (\<lambda>gs req. games (handle_alt gs req)) [] reqs"

text \<open>Every stored session has at most two players.\<close>

definition at_most_two :: "(string \<times> ('p, 'b) Game_scheme) list \<Rightarrow> bool" where
  "at_most_two gs = list_all (\<lambda>kg. length (players (snd kg)) \<le> 2) gs"

text \<open>A stored session with a winner is in phase \<^verbatim>\<open>game_over\<close>.\<close>

definition winner_only_when_over :: "(string \<times> ('p, 'b) Game_scheme) list \<Rightarrow> bool" where
  "winner_only_when_over gs =
     list_all (\<lambda>kg. winner (snd kg) = None \<or> phase (snd kg) = Game_over) gs"

text \<open>
  The invariant of the simultaneous variant behind the previous one: a session with a
  winner is over, and one of its two players has no health left.
\<close>

definition settled :: "SimGame \<Rightarrow> bool" where
  "settled game =
     (winner game = None \<or>
      (phase game = Game_over \<and>
       (case players game of
          player1 # player2 # rest \<Rightarrow> health player1 \<le> 0 \<or> health player2 \<le> 0
        | _ \<Rightarrow> False)))"

definition all_settled :: "(string \<times> SimGame) list \<Rightarrow> bool" where
  "all_settled gs = list_all (\<lambda>kg. settled (snd kg)) gs"

section \<open>Example sessions\<close>

text \<open>A player of the simultaneous variant who has submitted, with the default stats.\<close>

definition example_player ::
  "string \<Rightarrow> int \<Rightarrow> MoveType option \<Rightarrow> MoveType option \<Rightarrow> RPlayer" where
  "example_player pid h a d =
     \<lparr>player_id = pid, name = pid, health = h, maxHealth = 100, attack = 15, defense = 5,
      currentAttackType = a, currentDefenseType = d, ready = True\<rparr>"

definition example_game :: "RPlayer list \<Rightarrow> SimGame" where
  "example_game ps =
     \<lparr>game_id = ''ABC123'', players = ps, currentTurn = Some ''B'', phase = Selection,
      winner = None, gameLog = []\<rparr>"

text \<open>Alice creates a session, the generated id is \<^verbatim>\<open>ABC123\<close>, and Bob joins it.\<close>

definition two_player_sim :: "(string \<times> SimGame) list" where
  "two_player_sim =
     run_sim [Sim_create ''0.abc123xyz'' ''A'' ''Alice'', Sim_join ''ABC123'' ''B'' ''Bob'']"

definition two_player_alt :: "(string \<times> AltGame) list" where
  "two_player_alt =
     run_alt [Alt_create ''0.abc123xyz'' ''A'' ''Alice'', Alt_join ''ABC123'' ''B'' ''Bob'']"

text \<open>Alice alone in a fresh session of the simultaneous variant.\<close>

definition one_player_sim :: "(string \<times> SimGame) list" where
  "one_player_sim = run_sim [Sim_create ''0.abc123xyz'' ''A'' ''Alice'']"

text \<open>Alternating variant: Alice has attacked with rock and Bob has not answered yet.\<close>

definition attack_pending_alt :: "(string \<times> AltGame) list" where
  "attack_pending_alt =
     run_alt [Alt_create ''0.abc123xyz'' ''A'' ''Alice'', Alt_join ''ABC123'' ''B'' ''Bob'',
              Alt_attack ''ABC123'' ''A'' (Some Rock)]"

text \<open>Bob has answered with rock; the jitter drawn was 0.\<close>

definition after_first_exchange :: "(string \<times> AltGame) list" where
  "after_first_exchange =
     run_alt [Alt_create ''0.abc123xyz'' ''A'' ''Alice'', Alt_join ''ABC123'' ''B'' ''Bob'',
              Alt_attack ''ABC123'' ''A'' (Some Rock),
              Alt_defense ''ABC123'' ''B'' (Some Rock) 0]"

text \<open>
  A whole match of the alternating variant: Alice's rock meets Bob's scissors four times
  (29 damage each, jitter 4), Bob's rock meets Alice's rock three times (10 damage each,
  jitter 0), Alice wins, Bob leaves, and Carol joins the session before its deletion
  timer fires.
\<close>

definition finished_then_rejoined :: "(string \<times> AltGame) list" where
  "finished_then_rejoined =
     run_alt [Alt_create ''0.abc123xyz'' ''A'' ''Alice'', Alt_join ''ABC123'' ''B'' ''Bob'',
              Alt_attack ''ABC123'' ''A'' (Some Rock),
              Alt_defense ''ABC123'' ''B'' (Some Scissors) 4,
              Alt_attack ''ABC123'' ''B'' (Some Rock),
              Alt_defense ''ABC123'' ''A'' (Some Rock) 0,
              Alt_attack ''ABC123'' ''A'' (Some Rock),
              Alt_defense ''ABC123'' ''B'' (Some Scissors) 4,
              Alt_attack ''ABC123'' ''B'' (Some Rock),
              Alt_defense ''ABC123'' ''A'' (Some Rock) 0,
              Alt_attack ''ABC123'' ''A'' (Some Rock),
              Alt_defense ''ABC123'' ''B'' (Some Scissors) 4,
              Alt_attack ''ABC123'' ''B'' (Some Rock),
              Alt_defense ''ABC123'' ''A'' (Some Rock) 0,
              Alt_attack ''ABC123'' ''A'' (Some Rock),
              Alt_defense ''ABC123'' ''B'' (Some Scissors) 4,
              Alt_leave ''ABC123'' ''B'',
              Alt_join ''ABC123'' ''C'' ''Carol'']"

section \<open>Theorems\<close>

text \<open>
  Claim C1.  The effectiveness resolver is a total function on move pairs that follows
  the cyclic dominance table: equal moves give tier normal with multiplier 1.0; rock on
  scissors, scissors on paper and paper on rock give tier super with multiplier 2.0; the
  three reversed pairs give tier not with multiplier 0.5.
\<close>

theorem getEffectivenessMultiplier_table:
  "(\<forall>a. getEffectivenessMultiplier (Some a) (Some a) = \<lparr>multiplier = 1, type = T_normal\<rparr>)
   \<and> getEffectivenessMultiplier (Some Rock) (Some Scissors) = \<lparr>multiplier = 2, type = T_super\<rparr>
   \<and> getEffectivenessMultiplier (Some Scissors) (Some Paper) = \<lparr>multiplier = 2, type = T_super\<rparr>
   \<and> getEffectivenessMultiplier (Some Paper) (Some Rock) = \<lparr>multiplier = 2, type = T_super\<rparr>
   \<and> getEffectivenessMultiplier (Some Scissors) (Some Rock) = \<lparr>multiplier = 1/2, type = T_not\<rparr>
   \<and> getEffectivenessMultiplier (Some Paper) (Some Scissors) = \<lparr>multiplier = 1/2, type = T_not\<rparr>
   \<and> getEffectivenessMultiplier (Some Rock) (Some Paper) = \<lparr>multiplier = 1/2, type = T_not\<rparr>"
  by (simp add: getEffectivenessMultiplier_def SUPER_EFFECTIVE_def NORMAL_EFFECTIVE_def
      NOT_EFFECTIVE_def)



text \<open>The damage is what \<^verbatim>\<open>processBattle\<close> takes from each player's health.\<close>

lemma processBattle_applies_damage:
  assumes "players game = p1 # p2 # rest"
  shows "\<exists>game' es ts q1 q2. processBattle game jitter1 jitter2 = Inr (game', es, ts)
     \<and> players game' = q1 # q2 # rest
     \<and> health q1 = max 0 (health p1 - damage (attack p2)
          (multiplier (getEffectivenessMultiplier (currentAttackType p2) (currentDefenseType p1)))
          (defense p1) jitter2)
     \<and> health q2 = max 0 (health p2 - damage (attack p1)
          (multiplier (getEffectivenessMultiplier (currentAttackType p1) (currentDefenseType p2)))
          (defense p2) jitter1)"
  using assms by (simp add: processBattle_def Let_def)

subsection \<open>Reading the registry\<close>

lemma getGame_Own [simp]: "getGame gs k = Own g \<longleftrightarrow> map_of gs k = Some g"
  by (simp add: getGame_def split: option.splits)

lemma getGame_stored [simp]: "map_of gs k = Some g \<Longrightarrow> getGame gs k = Own g"
  by simp

text \<open>
  A generated id has no lower-case letter, and every name of \<^verbatim>\<open>Object.prototype\<close> has
  one: \<^verbatim>\<open>create_game\<close> never assigns to an inherited name, so its assignment always
  creates or replaces an own property.
\<close>

lemma toUpperChar_not_t_e: "toUpperChar c \<noteq> CHR ''t'' \<and> toUpperChar c \<noteq> CHR ''e''"
  by (simp add: toUpperChar_def)

lemma generateGameId_chars:
  "x \<in> set (generateGameId rnd36) \<Longrightarrow> x \<noteq> CHR ''t'' \<and> x \<noteq> CHR ''e''"
  using toUpperChar_not_t_e by (auto simp: generateGameId_def)

lemma generateGameId_not_inherited: "generateGameId rnd36 \<notin> set objectPrototypeNames"
proof
  assume "generateGameId rnd36 \<in> set objectPrototypeNames"
  then have "CHR ''t'' \<in> set (generateGameId rnd36) \<or> CHR ''e'' \<in> set (generateGameId rnd36)"
    by (auto simp: objectPrototypeNames_def)
  then show False using generateGameId_chars by blast
qed

text \<open>The damage is what \<^verbatim>\<open>submit_defense\<close> takes from the defender's health.\<close>

lemma submit_defense_applies_damage:
  fixes hs :: "(string \<times> AltGame) list"
  assumes "map_of hs gameId = Some agame"
    and "find (\<lambda>p. player_id p = playerId) (players agame) = Some defender"
    and "pendingAttack agame = Some pending"
    and "find (\<lambda>p. player_id p = pa_playerId pending) (players agame) = Some attacker"
  shows "\<exists>agame'. map_of (games (submit_defense hs gameId playerId defenseType jitter)) gameId
              = Some agame'
          \<and> players agame' = update_first (\<lambda>p. player_id p = playerId)
               (\<lambda>p. p\<lparr>currentDefenseType := defenseType,
                       health := max 0 (health defender
                         - damage (attack attacker)
                             (multiplier (getEffectivenessMultiplier (pa_attackType pending)
                                defenseType))
                             (defense defender) jitter)\<rparr>)
               (players agame)"
  using assms by (simp add: submit_defense_def Let_def update_conv')

subsection \<open>Evaluation\<close>

lemmas battle_eval =
  processBattle_def Let_def damage_def getEffectivenessMultiplier_def example_game_def
  example_player_def SUPER_EFFECTIVE_def NORMAL_EFFECTIVE_def NOT_EFFECTIVE_def numStr_def
  natStr.simps digit_char_def effectivenessText_def

lemmas handler_eval =
  two_player_sim_def two_player_alt_def run_sim_def run_alt_def create_game_sim_def
  join_game_sim_def create_game_def join_game_def generateGameId_def toUpperChar_def
  broadcastAvailableGames_def availableGames_def Let_def reply_error_def submit_move_def
  submit_attack_def submit_defense_def getGame_def objectPrototypeNames_def type_error_def
  objectValues_def isArrayIndex_def

lemmas match_eval = handler_eval leave_game_def battle_eval nameOrOpponent_def

subsection \<open>Battle resolution of the simultaneous variant\<close>

text \<open>
  Claim C3.  In the simultaneous variant a battle resolution on a session with two players
  returns, and in the session it returns: if both players' healths are at most 0, the
  winner is \<^verbatim>\<open>null\<close> and the phase is \<^verbatim>\<open>game_over\<close>; if exactly one player's health is
  at most 0, the winner is the other player's id and the phase is \<^verbatim>\<open>game_over\<close>.
\<close>

theorem processBattle_winner:
  assumes "players game = p1 # p2 # rest"
  shows "\<exists>game' es ts q1 q2. processBattle game jitter1 jitter2 = Inr (game', es, ts)
     \<and> players game' = q1 # q2 # rest
     \<and> player_id q1 = player_id p1 \<and> player_id q2 = player_id p2
     \<and> (health q1 \<le> 0 \<and> health q2 \<le> 0 \<longrightarrow>
          winner game' = None \<and> phase game' = Game_over)
     \<and> (health q1 \<le> 0 \<and> \<not> health q2 \<le> 0 \<longrightarrow>
          winner game' = Some (player_id q2) \<and> phase game' = Game_over)
     \<and> (\<not> health q1 \<le> 0 \<and> health q2 \<le> 0 \<longrightarrow>
          winner game' = Some (player_id q1) \<and> phase game' = Game_over)"
  using assms by (simp add: processBattle_def Let_def)

theorem processBattle_winner_witness:
  "(\<exists>game' es ts q1 q2.
      processBattle (example_game [example_player ''A'' 5 (Some Rock) (Some Rock),
                                   example_player ''B'' 5 (Some Rock) (Some Rock)]) 0 0
        = Inr (game', es, ts)
      \<and> players game' = [q1, q2] \<and> health q1 \<le> 0 \<and> health q2 \<le> 0
      \<and> winner game' = None \<and> phase game' = Game_over)
   \<and> (\<exists>game' es ts q1 q2.
      processBattle (example_game [example_player ''A'' 5 (Some Rock) (Some Rock),
                                   example_player ''B'' 100 (Some Rock) (Some Rock)]) 0 0
        = Inr (game', es, ts)
      \<and> players game' = [q1, q2] \<and> health q1 \<le> 0 \<and> \<not> health q2 \<le> 0
      \<and> winner game' = Some ''B'' \<and> phase game' = Game_over)
   \<and> (\<exists>game' es ts q1 q2.
      processBattle (example_game [example_player ''A'' 100 (Some Rock) (Some Rock),
                                   example_player ''B'' 5 (Some Rock) (Some Rock)]) 0 0
        = Inr (game', es, ts)
      \<and> players game' = [q1, q2] \<and> \<not> health q1 \<le> 0 \<and> health q2 \<le> 0
      \<and> winner game' = Some ''A'' \<and> phase game' = Game_over)"
  using processBattle_winner
          [of "example_game [example_player ''A'' 5 (Some Rock) (Some Rock),
                             example_player ''B'' 5 (Some Rock) (Some Rock)]"
              "example_player ''A'' 5 (Some Rock) (Some Rock)"
              "example_player ''B'' 5 (Some Rock) (Some Rock)" "[]" 0 0]
        processBattle_winner
          [of "example_game [example_player ''A'' 5 (Some Rock) (Some Rock),
                             example_player ''B'' 100 (Some Rock) (Some Rock)]"
              "example_player ''A'' 5 (Some Rock) (Some Rock)"
              "example_player ''B'' 100 (Some Rock) (Some Rock)" "[]" 0 0]
        processBattle_winner
          [of "example_game [example_player ''A'' 100 (Some Rock) (Some Rock),
                             example_player ''B'' 5 (Some Rock) (Some Rock)]"
              "example_player ''A'' 100 (Some Rock) (Some Rock)"
              "example_player ''B'' 5 (Some Rock) (Some Rock)" "[]" 0 0]
  by (simp add: battle_eval)

subsection \<open>Rejected submissions\<close>

text \<open>
  What the two submission handlers do with a request they refuse.  An unknown session id
  is answered with \<^verbatim>\<open>Game not found\<close> unless it is a name of \<^verbatim>\<open>Object.prototype\<close>; a
  player who is not in the session with \<^verbatim>\<open>Player not found in game\<close>; a player who is
  not the turn holder (alternating variant: or while the turn type is not attack) with
  \<^verbatim>\<open>Not your turn\<close>.  In each case the registry is returned as it was.
\<close>

lemma rejected_submission_registry:
  fixes gs :: "(string \<times> SimGame) list" and hs :: "(string \<times> AltGame) list"
  shows
   "(getGame gs gameId = Absent \<longrightarrow>
       submit_move gs gameId playerId attackType defenseType jitter1 jitter2
         = \<lparr>games = gs, effects = [Emit To_socket (Error ''Game not found'')], timers = [],
            thrown = None\<rparr>)
    \<and> (getGame gs gameId = Inherited \<longrightarrow>
       submit_move gs gameId playerId attackType defenseType jitter1 jitter2
         = \<lparr>games = gs, effects = [], timers = [], thrown = Some TypeError\<rparr>)
    \<and> (\<forall>game. map_of gs gameId = Some game
          \<and> find (\<lambda>p. player_id p = playerId) (players game) = None \<longrightarrow>
       submit_move gs gameId playerId attackType defenseType jitter1 jitter2
         = \<lparr>games = gs, effects = [Emit To_socket (Error ''Player not found in game'')],
            timers = [], thrown = None\<rparr>)
    \<and> (\<forall>game. map_of gs gameId = Some game
          \<and> find (\<lambda>p. player_id p = playerId) (players game) \<noteq> None
          \<and> currentTurn game \<noteq> Some playerId \<longrightarrow>
       submit_move gs gameId playerId attackType defenseType jitter1 jitter2
         = \<lparr>games = gs, effects = [Emit To_socket (Error ''Not your turn'')], timers = [],
            thrown = None\<rparr>)
    \<and> (getGame hs gameId = Absent \<longrightarrow>
       submit_attack hs gameId playerId attackType
         = \<lparr>games = hs, effects = [Emit To_socket (Error ''Game not found'')], timers = [],
            thrown = None\<rparr>)
    \<and> (getGame hs gameId = Inherited \<longrightarrow>
       submit_attack hs gameId playerId attackType
         = \<lparr>games = hs, effects = [], timers = [], thrown = Some TypeError\<rparr>)
    \<and> (\<forall>game. map_of hs gameId = Some game
          \<and> find (\<lambda>p. player_id p = playerId) (players game) = None \<longrightarrow>
       submit_attack hs gameId playerId attackType
         = \<lparr>games = hs, effects = [Emit To_socket (Error ''Player not found in game'')],
            timers = [], thrown = None\<rparr>)
    \<and> (\<forall>game. map_of hs gameId = Some game
          \<and> find (\<lambda>p. player_id p = playerId) (players game) \<noteq> None
          \<and> (currentTurn game \<noteq> Some playerId \<or> currentTurnType game \<noteq> Attack) \<longrightarrow>
       submit_attack hs gameId playerId attackType
         = \<lparr>games = hs, effects = [Emit To_socket (Error ''Not your turn to attack'')],
            timers = [], thrown = None\<rparr>)"
  by (auto simp add: submit_move_def submit_attack_def reply_error_def type_error_def)

text \<open>
  Claim C4.  A \<^verbatim>\<open>submit_move\<close> or \<^verbatim>\<open>submit_attack\<close> that names an unknown session must
  be answered with an error message.  The handlers read \<^verbatim>\<open>games[gameId]\<close> on a plain
  object: for the id \<^verbatim>\<open>constructor\<close>, which no session is stored under, the value read
  is inherited and truthy, the guard \<^verbatim>\<open>!game\<close> is passed, and \<^verbatim>\<open>game.players.find\<close>
  throws a \<^verbatim>\<open>TypeError\<close>.  No message is sent; the registry is as it was.  The two
  requests are a \<^verbatim>\<open>submit_move\<close> to the simultaneous server and a \<^verbatim>\<open>submit_attack\<close> to
  the alternating one, both while Alice and Bob's session is stored.
\<close>

theorem submit_with_inherited_id_throws:
  "map_of two_player_sim ''constructor'' = None
   \<and> handle_sim two_player_sim (Sim_move ''constructor'' ''A'' (Some Rock) (Some Paper) 0 0)
     = \<lparr>games = two_player_sim, effects = [], timers = [], thrown = Some TypeError\<rparr>
   \<and> map_of two_player_alt ''constructor'' = None
   \<and> handle_alt two_player_alt (Alt_attack ''constructor'' ''A'' (Some Rock))
     = \<lparr>games = two_player_alt, effects = [], timers = [], thrown = Some TypeError\<rparr>"
  by (simp add: handler_eval)

subsection \<open>A defense with no attack buffered\<close>

text \<open>
  Claim C5.  In the alternating variant a \<^verbatim>\<open>submit_defense\<close> that arrives while no attack
  is buffered should be answered with an error message and must not throw.  The handler
  does throw: right after Bob has joined Alice's session, a defense from Bob ends in a
  \<^verbatim>\<open>TypeError\<close>, with no message sent and the registry as it was.
\<close>

theorem submit_defense_without_attack_throws:
  "submit_defense two_player_alt ''ABC123'' ''B'' (Some Rock) 0
     = \<lparr>games = two_player_alt, effects = [], timers = [], thrown = Some TypeError\<rparr>"
  by (simp add: handler_eval)

subsection \<open>At most two players\<close>

lemma length_update_first [simp]: "length (update_first P f xs) = length xs"
  by (induction xs) auto

lemma at_most_two_Nil: "at_most_two []"
  by (simp add: at_most_two_def)

lemma at_most_two_update:
  "at_most_two gs \<Longrightarrow> length (players g) \<le> 2 \<Longrightarrow> at_most_two (AList.update k g gs)"
  by (induction gs) (auto simp: at_most_two_def)

lemma at_most_two_delete: "at_most_two gs \<Longrightarrow> at_most_two (AList.delete k gs)"
  by (induction gs) (auto simp: at_most_two_def)

lemma at_most_two_lookup:
  "at_most_two gs \<Longrightarrow> map_of gs k = Some g \<Longrightarrow> length (players g) \<le> 2"
  by (induction gs) (auto simp: at_most_two_def split: if_splits)

text \<open>Replacing a stored session by one with no more players keeps the bound.\<close>

lemma at_most_two_modify:
  assumes "at_most_two gs" and "map_of gs k = Some g"
    and "length (players g') \<le> length (players g)"
  shows "at_most_two (AList.update k g' gs)"
proof -
  have "length (players g) \<le> 2" using assms(1,2) by (rule at_most_two_lookup)
  then have "length (players g') \<le> 2" using assms(3) by linarith
  with assms(1) show ?thesis by (rule at_most_two_update)
qed

lemma at_most_two_fire: "at_most_two gs \<Longrightarrow> at_most_two (fire gs task)"
  by (cases task) (auto simp: at_most_two_delete)

lemma processBattle_length:
  "processBattle game jitter1 jitter2 = Inr (game', es, ts)
   \<Longrightarrow> length (players game') = length (players game)"
  by (auto simp: processBattle_def Let_def split: list.splits if_splits)

lemma games_broadcast [simp]: "games (broadcastAvailableGames out) = games out"
  by (simp add: broadcastAvailableGames_def split: sum.splits)

lemma at_most_two_create_sim:
  "at_most_two gs \<Longrightarrow> at_most_two (games (create_game_sim gs r p n))"
  by (simp add: create_game_sim_def Let_def at_most_two_update)

lemma at_most_two_join_sim:
  "at_most_two gs \<Longrightarrow> at_most_two (games (join_game_sim gs k p n))"
  by (auto simp: join_game_sim_def Let_def reply_error_def type_error_def at_most_two_update
      split: Property.splits option.splits)

lemma at_most_two_submit_move:
  "at_most_two gs \<Longrightarrow> at_most_two (games (submit_move gs k p a d r1 r2))"
  by (auto simp: submit_move_def Let_def reply_error_def type_error_def processBattle_length
      intro: at_most_two_modify split: Property.splits option.splits sum.splits)

lemma at_most_two_handle_sim: "at_most_two gs \<Longrightarrow> at_most_two (games (handle_sim gs req))"
  by (cases req)
     (auto simp: at_most_two_create_sim at_most_two_join_sim at_most_two_submit_move
        at_most_two_fire get_available_games_sim_def leave_game_sim_def type_error_def Let_def
        split: Property.splits sum.splits option.splits)

lemma at_most_two_create: "at_most_two gs \<Longrightarrow> at_most_two (games (create_game gs r p n))"
  by (simp add: create_game_def Let_def at_most_two_update)

lemma at_most_two_join: "at_most_two gs \<Longrightarrow> at_most_two (games (join_game gs k p n))"
  by (auto simp: join_game_def Let_def reply_error_def type_error_def at_most_two_update
      split: Property.splits option.splits)

lemma at_most_two_submit_attack:
  "at_most_two gs \<Longrightarrow> at_most_two (games (submit_attack gs k p a))"
  by (auto simp: submit_attack_def Let_def reply_error_def type_error_def
      intro: at_most_two_modify split: Property.splits option.splits)

lemma at_most_two_submit_defense:
  "at_most_two gs \<Longrightarrow> at_most_two (games (submit_defense gs k p d r))"
  by (auto simp: submit_defense_def Let_def reply_error_def type_error_def
      intro: at_most_two_modify split: Property.splits option.splits)

lemma at_most_two_leave: "at_most_two gs \<Longrightarrow> at_most_two (games (leave_game gs k p))"
  by (auto simp: leave_game_def Let_def type_error_def at_most_two_delete
      intro: at_most_two_modify split: Property.splits option.splits)

lemma at_most_two_handle_alt: "at_most_two gs \<Longrightarrow> at_most_two (games (handle_alt gs req))"
  by (cases req)
     (auto simp: at_most_two_create at_most_two_join at_most_two_submit_attack
        at_most_two_submit_defense at_most_two_leave at_most_two_fire
        get_available_games_def Let_def
        split: Property.splits sum.splits option.splits)

lemma at_most_two_run_sim: "at_most_two (run_sim reqs)"
  unfolding run_sim_def
  by (induction reqs rule: rev_induct) (simp_all add: at_most_two_Nil at_most_two_handle_sim)

lemma at_most_two_run_alt: "at_most_two (run_alt reqs)"
  unfolding run_alt_def
  by (induction reqs rule: rev_induct) (simp_all add: at_most_two_Nil at_most_two_handle_alt)

text \<open>
  Claim C6.  After every run of either server, every stored session has at most two
  players; and a \<^verbatim>\<open>join_game\<close> on a session that already has two players sends the
  requester the error \<^verbatim>\<open>Game is full\<close> and returns the registry as it was.
\<close>

theorem session_never_exceeds_two_players:
  fixes gs :: "(string \<times> SimGame) list" and hs :: "(string \<times> AltGame) list"
  shows
   "at_most_two (run_sim sreqs) \<and> at_most_two (run_alt areqs)
    \<and> (\<forall>game. map_of gs gameId = Some game \<and> length (players game) \<ge> 2 \<longrightarrow>
         join_game_sim gs gameId playerId playerName
           = \<lparr>games = gs, effects = [Emit To_socket (Error ''Game is full'')], timers = [],
              thrown = None\<rparr>)
    \<and> (\<forall>game. map_of hs gameId = Some game \<and> length (players game) \<ge> 2 \<longrightarrow>
         join_game hs gameId playerId playerName
           = \<lparr>games = hs, effects = [Emit To_socket (Error ''Game is full'')], timers = [],
              thrown = None\<rparr>)"
  by (simp add: at_most_two_run_sim at_most_two_run_alt join_game_sim_def join_game_def
      reply_error_def type_error_def)

theorem session_never_exceeds_two_players_witness:
  "map_option (\<lambda>game. length (players game)) (map_of two_player_sim ''ABC123'') = Some 2
   \<and> join_game_sim two_player_sim ''ABC123'' ''C'' ''Carol''
     = \<lparr>games = two_player_sim, effects = [Emit To_socket (Error ''Game is full'')],
        timers = [], thrown = None\<rparr>
   \<and> map_option (\<lambda>game. length (players game)) (map_of two_player_alt ''ABC123'') = Some 2
   \<and> join_game two_player_alt ''ABC123'' ''C'' ''Carol''
     = \<lparr>games = two_player_alt, effects = [Emit To_socket (Error ''Game is full'')],
        timers = [], thrown = None\<rparr>"
  using session_never_exceeds_two_players
          [of "[]" "[]" two_player_sim "''ABC123''" "''C''" "''Carol''" two_player_alt]
  by (simp add: handler_eval)

subsection \<open>After a resolution that does not end the game\<close>

lemma processBattle_nonterminal:
  "players game = p1 # p2 # rest \<Longrightarrow>
     (\<exists>game' es ts q1 q2. processBattle game jitter1 jitter2 = Inr (game', es, ts)
        \<and> players game' = q1 # q2 # rest
        \<and> (0 < health q1 \<and> 0 < health q2 \<longrightarrow>
             currentAttackType q1 = None \<and> currentDefenseType q1 = None
             \<and> currentAttackType q2 = None \<and> currentDefenseType q2 = None
             \<and> \<not> ready q1 \<and> \<not> ready q2
             \<and> phase game' = Selection \<and> currentTurn game' = Some (player_id p1)
             \<and> winner game' = winner game))"
  by (simp add: processBattle_def Let_def)

lemma submit_defense_nonterminal:
  fixes hs :: "(string \<times> AltGame) list"
  assumes "map_of hs gameId = Some agame"
    and "find (\<lambda>p. player_id p = playerId) (players agame) = Some defender"
    and "pendingAttack agame = Some pending"
    and "find (\<lambda>p. player_id p = pa_playerId pending) (players agame) = Some attacker"
    and "0 < health defender
             - damage (attack attacker)
                 (multiplier (getEffectivenessMultiplier (pa_attackType pending) defenseType))
                 (defense defender) jitter"
  shows "\<exists>agame'. map_of (games (submit_defense hs gameId playerId defenseType jitter)) gameId
              = Some agame'
          \<and> thrown (submit_defense hs gameId playerId defenseType jitter) = None
          \<and> pendingAttack agame' = None \<and> currentTurnType agame' = Attack
          \<and> currentTurn agame' = Some (player_id defender)
          \<and> phase agame' = phase agame \<and> winner agame' = winner agame"
  using assms by (simp add: submit_defense_def Let_def update_conv')

text \<open>
  Claim C7, as the spec states it: after every battle resolution that does not end the
  game, both players' pending move fields are cleared, the phase returns to selection and
  the first player is the turn holder again.  The alternating variant does otherwise:
  after Alice's rock and Bob's rock the game goes on, the phase is selection, but the
  turn holder is Bob, the second player, and the two submitted moves are still stored in
  the players.
\<close>

theorem alternating_resolution_passes_turn:
  "map_option phase (map_of after_first_exchange ''ABC123'') = Some Selection
   \<and> map_option winner (map_of after_first_exchange ''ABC123'') = Some None
   \<and> map_option (map player_id \<circ> players) (map_of after_first_exchange ''ABC123'')
       = Some [''A'', ''B'']
   \<and> map_option (map health \<circ> players) (map_of after_first_exchange ''ABC123'')
       = Some [100, 90]
   \<and> map_option currentTurn (map_of after_first_exchange ''ABC123'') = Some (Some ''B'')
   \<and> map_option (map currentAttackType \<circ> players) (map_of after_first_exchange ''ABC123'')
       = Some [Some Rock, None]
   \<and> map_option (map currentDefenseType \<circ> players) (map_of after_first_exchange ''ABC123'')
       = Some [None, Some Rock]"
  by (simp add: after_first_exchange_def match_eval)

text \<open>
  Claim C7, amended.  In the simultaneous variant, a battle resolution on a session with
  two players that leaves both healths above 0 clears both players' attack and defense
  selections and their ready flags, sets the phase to selection and makes the first
  player the turn holder.  In the alternating variant, a defense that resolves the
  buffered attack and leaves the defender's health above 0 clears the buffered attack,
  sets the turn type to attack and passes the turn to the defender; the phase stays as
  it was.
\<close>

theorem nonterminal_resolution:
  fixes hs :: "(string \<times> AltGame) list"
  shows
   "(\<forall>p1 p2 rest. players game = p1 # p2 # rest \<longrightarrow>
       (\<exists>game' es ts q1 q2. processBattle game jitter1 jitter2 = Inr (game', es, ts)
          \<and> players game' = q1 # q2 # rest
          \<and> (0 < health q1 \<and> 0 < health q2 \<longrightarrow>
               currentAttackType q1 = None \<and> currentDefenseType q1 = None
               \<and> currentAttackType q2 = None \<and> currentDefenseType q2 = None
               \<and> \<not> ready q1 \<and> \<not> ready q2
               \<and> phase game' = Selection \<and> currentTurn game' = Some (player_id p1)
               \<and> winner game' = winner game)))
    \<and> (\<forall>agame defender pending attacker.
         map_of hs gameId = Some agame
         \<and> find (\<lambda>p. player_id p = playerId) (players agame) = Some defender
         \<and> pendingAttack agame = Some pending
         \<and> find (\<lambda>p. player_id p = pa_playerId pending) (players agame) = Some attacker
         \<and> 0 < health defender
                 - damage (attack attacker)
                     (multiplier (getEffectivenessMultiplier (pa_attackType pending) defenseType))
                     (defense defender) jitter \<longrightarrow>
       (\<exists>agame'. map_of (games (submit_defense hs gameId playerId defenseType jitter)) gameId
              = Some agame'
          \<and> thrown (submit_defense hs gameId playerId defenseType jitter) = None
          \<and> pendingAttack agame' = None \<and> currentTurnType agame' = Attack
          \<and> currentTurn agame' = Some (player_id defender)
          \<and> phase agame' = phase agame \<and> winner agame' = winner agame))"
proof (intro conjI allI impI)
  fix p1 p2 rest
  assume "players game = p1 # p2 # rest"
  then show "\<exists>game' es ts q1 q2. processBattle game jitter1 jitter2 = Inr (game', es, ts)
          \<and> players game' = q1 # q2 # rest
          \<and> (0 < health q1 \<and> 0 < health q2 \<longrightarrow>
               currentAttackType q1 = None \<and> currentDefenseType q1 = None
               \<and> currentAttackType q2 = None \<and> currentDefenseType q2 = None
               \<and> \<not> ready q1 \<and> \<not> ready q2
               \<and> phase game' = Selection \<and> currentTurn game' = Some (player_id p1)
               \<and> winner game' = winner game)"
    by (rule processBattle_nonterminal)
next
  fix agame defender pending attacker
  assume a: "map_of hs gameId = Some agame
         \<and> find (\<lambda>p. player_id p = playerId) (players agame) = Some defender
         \<and> pendingAttack agame = Some pending
         \<and> find (\<lambda>p. player_id p = pa_playerId pending) (players agame) = Some attacker
         \<and> 0 < health defender
                 - damage (attack attacker)
                     (multiplier (getEffectivenessMultiplier (pa_attackType pending) defenseType))
                     (defense defender) jitter"
  then have h1: "map_of hs gameId = Some agame"
    and h2: "find (\<lambda>p. player_id p = playerId) (players agame) = Some defender"
    and h3: "pendingAttack agame = Some pending"
    and h4: "find (\<lambda>p. player_id p = pa_playerId pending) (players agame) = Some attacker"
    and h5: "0 < health defender
                 - damage (attack attacker)
                     (multiplier (getEffectivenessMultiplier (pa_attackType pending) defenseType))
                     (defense defender) jitter"
    by blast+
  show "\<exists>agame'. map_of (games (submit_defense hs gameId playerId defenseType jitter)) gameId
              = Some agame'
          \<and> thrown (submit_defense hs gameId playerId defenseType jitter) = None
          \<and> pendingAttack agame' = None \<and> currentTurnType agame' = Attack
          \<and> currentTurn agame' = Some (player_id defender)
          \<and> phase agame' = phase agame \<and> winner agame' = winner agame"
    using h1 h2 h3 h4 h5 by (rule submit_defense_nonterminal)
qed

theorem nonterminal_resolution_witness:
  "(\<exists>game' es ts q1 q2.
       processBattle (example_game [example_player ''A'' 100 (Some Rock) (Some Scissors),
                                    example_player ''B'' 100 (Some Rock) (Some Scissors)]) 0 0
         = Inr (game', es, ts)
       \<and> players game' = [q1, q2] \<and> health q1 = 75 \<and> health q2 = 75
       \<and> currentAttackType q1 = None \<and> currentDefenseType q1 = None
       \<and> currentAttackType q2 = None \<and> currentDefenseType q2 = None
       \<and> phase game' = Selection \<and> currentTurn game' = Some ''A'')
   \<and> map_option pendingAttack (map_of attack_pending_alt ''ABC123'')
       = Some (Some \<lparr>pa_playerId = ''A'', pa_attackType = Some Rock\<rparr>)
   \<and> map_option pendingAttack
        (map_of (games (submit_defense attack_pending_alt ''ABC123'' ''B'' (Some Rock) 0))
           ''ABC123'') = Some None
   \<and> map_option currentTurnType
        (map_of (games (submit_defense attack_pending_alt ''ABC123'' ''B'' (Some Rock) 0))
           ''ABC123'') = Some Attack
   \<and> map_option currentTurn
        (map_of (games (submit_defense attack_pending_alt ''ABC123'' ''B'' (Some Rock) 0))
           ''ABC123'') = Some (Some ''B'')
   \<and> map_option phase
        (map_of (games (submit_defense attack_pending_alt ''ABC123'' ''B'' (Some Rock) 0))
           ''ABC123'') = Some Selection"
proof -
  let ?G = "example_game [example_player ''A'' 100 (Some Rock) (Some Scissors),
                          example_player ''B'' 100 (Some Rock) (Some Scissors)]"
  let ?g = "the (map_of attack_pending_alt ''ABC123'')"
  let ?d = "the (find (\<lambda>p. player_id p = ''B'') (players ?g))"
  let ?pa = "the (pendingAttack ?g)"
  let ?a = "the (find (\<lambda>p. player_id p = pa_playerId ?pa) (players ?g))"
  note inst = nonterminal_resolution [of ?G 0 0 attack_pending_alt "''ABC123''" "''B''" "Some Rock" 0]
  have sim: "\<exists>game' es ts q1 q2. processBattle ?G 0 0 = Inr (game', es, ts)
       \<and> players game' = [q1, q2] \<and> health q1 = 75 \<and> health q2 = 75
       \<and> currentAttackType q1 = None \<and> currentDefenseType q1 = None
       \<and> currentAttackType q2 = None \<and> currentDefenseType q2 = None
       \<and> phase game' = Selection \<and> currentTurn game' = Some ''A''"
    using inst [THEN conjunct1] by (simp add: battle_eval)
  have pend: "map_option pendingAttack (map_of attack_pending_alt ''ABC123'')
       = Some (Some \<lparr>pa_playerId = ''A'', pa_attackType = Some Rock\<rparr>)"
    by (simp add: attack_pending_alt_def match_eval)
  have hyps: "map_of attack_pending_alt ''ABC123'' = Some ?g
      \<and> find (\<lambda>p. player_id p = ''B'') (players ?g) = Some ?d
      \<and> pendingAttack ?g = Some ?pa
      \<and> find (\<lambda>p. player_id p = pa_playerId ?pa) (players ?g) = Some ?a
      \<and> 0 < health ?d
             - damage (attack ?a)
                 (multiplier (getEffectivenessMultiplier (pa_attackType ?pa) (Some Rock)))
                 (defense ?d) 0"
    by (simp add: attack_pending_alt_def match_eval)
  have ph: "phase ?g = Selection"
    by (simp add: attack_pending_alt_def match_eval)
  from inst [THEN conjunct2, rule_format, OF hyps]
  obtain agame' where
    "map_of (games (submit_defense attack_pending_alt ''ABC123'' ''B'' (Some Rock) 0)) ''ABC123''
       = Some agame'"
    and "pendingAttack agame' = None" and "currentTurnType agame' = Attack"
    and "currentTurn agame' = Some (player_id ?d)" and "phase agame' = phase ?g"
    by blast
  moreover have "player_id ?d = ''B''"
    by (simp add: attack_pending_alt_def match_eval)
  ultimately show ?thesis using sim pend ph by simp
qed

subsection \<open>Leaving a session\<close>

lemma find_filter_not: "find P (filter (\<lambda>x. \<not> P x) xs) = None"
  by (induction xs) auto

lemma map_of_delete_same: "map_of (AList.delete k al) k = None"
  by (simp add: delete_conv')

lemma effects_broadcast:
  "e \<in> set (effects out) \<Longrightarrow> e \<in> set (effects (broadcastAvailableGames out))"
  by (simp add: broadcastAvailableGames_def split: sum.splits)

lemma timers_broadcast [simp]: "timers (broadcastAvailableGames out) = timers out"
  by (simp add: broadcastAvailableGames_def split: sum.splits)

text \<open>
  Claim C8, as the spec states it: on every leave of an existing session the leaver is
  removed or marked, a remaining opponent is declared the winner, the session's phase is
  forced to \<^verbatim>\<open>game_over\<close>, a departure line is logged, and a session nobody remains in
  is removed at once.  The stored sessions say otherwise.  Alternating variant: after Bob
  leaves the session he shares with Alice, the stored session is still in phase selection,
  has no winner, and its log has no departure line.  Simultaneous variant: after Alice
  leaves the session she is alone in, the registry is as it was (Alice is still listed,
  nothing marks her) and the session stays until the timer of 5000 ms fires.
\<close>

theorem leave_game_keeps_stored_session:
  "map_option phase (map_of (games (leave_game two_player_alt ''ABC123'' ''B'')) ''ABC123'')
     = Some Selection
   \<and> map_option winner (map_of (games (leave_game two_player_alt ''ABC123'' ''B'')) ''ABC123'')
     = Some None
   \<and> map_option gameLog (map_of (games (leave_game two_player_alt ''ABC123'' ''B'')) ''ABC123'')
     = Some [''Bob joined the game. Alice goes first with an attack!'']
   \<and> map_option (map player_id \<circ> players) (map_of one_player_sim ''ABC123'') = Some [''A'']
   \<and> games (leave_game_sim one_player_sim ''ABC123'' ''A'') = one_player_sim
   \<and> timers (leave_game_sim one_player_sim ''ABC123'' ''A'') = [(5000, Delete_game ''ABC123'')]"
  by (simp add: match_eval one_player_sim_def leave_game_sim_def)

text \<open>
  Claim C8, amended.  For a leave of an existing session:
  in the alternating variant the stored session loses the players with the leaver's id
  and is otherwise unchanged; if a player remains, a copy of the session with phase
  \<^verbatim>\<open>game_over\<close>, the first remaining player as winner and a departure line in front of the
  log is broadcast to the room, and a timer of 5000 ms is set whose firing removes the
  session from the registry; if no player remains, the session is removed at once and no
  timer is set.  In the simultaneous variant the registry is not changed, the timer of
  5000 ms that removes the session is set in every case, and if the session has a player
  with another id, that player is named winner in a broadcast copy with phase
  \<^verbatim>\<open>game_over\<close> and a departure line.
\<close>

theorem leave_game_effect:
  fixes gs :: "(string \<times> SimGame) list" and hs :: "(string \<times> AltGame) list"
  shows
   "(\<forall>game. map_of hs gameId = Some game
        \<and> filter (\<lambda>p. player_id p \<noteq> playerId) (players game) \<noteq> [] \<longrightarrow>
        games (leave_game hs gameId playerId)
          = AList.update gameId
              (game\<lparr>players := filter (\<lambda>p. player_id p \<noteq> playerId) (players game)\<rparr>) hs
        \<and> (\<exists>snapshot who.
              Emit (To_room gameId) (Game_state_update snapshot)
                \<in> set (effects (leave_game hs gameId playerId))
              \<and> players snapshot = filter (\<lambda>p. player_id p \<noteq> playerId) (players game)
              \<and> phase snapshot = Game_over
              \<and> winner snapshot
                  = Some (player_id (hd (filter (\<lambda>p. player_id p \<noteq> playerId) (players game))))
              \<and> gameLog snapshot = (who @ '' left the game.'') # gameLog game)
        \<and> timers (leave_game hs gameId playerId) = [(5000, Delete_game gameId)]
        \<and> map_of (fire (games (leave_game hs gameId playerId)) (Delete_game gameId)) gameId
            = None)
    \<and> (\<forall>game. map_of hs gameId = Some game
        \<and> filter (\<lambda>p. player_id p \<noteq> playerId) (players game) = [] \<longrightarrow>
        games (leave_game hs gameId playerId) = AList.delete gameId hs
        \<and> map_of (games (leave_game hs gameId playerId)) gameId = None
        \<and> timers (leave_game hs gameId playerId) = [])
    \<and> (\<forall>game. map_of gs gameId = Some game \<longrightarrow>
        games (leave_game_sim gs gameId playerId) = gs
        \<and> timers (leave_game_sim gs gameId playerId) = [(5000, Delete_game gameId)]
        \<and> map_of (fire (games (leave_game_sim gs gameId playerId)) (Delete_game gameId)) gameId
            = None)
    \<and> (\<forall>game other. map_of gs gameId = Some game
        \<and> find (\<lambda>p. player_id p \<noteq> playerId) (players game) = Some other \<longrightarrow>
        (\<exists>snapshot who.
           effects (leave_game_sim gs gameId playerId)
             = [Emit (To_room gameId) (Game_state_update snapshot), Socket_leave gameId]
           \<and> players snapshot = players game \<and> phase snapshot = Game_over
           \<and> winner snapshot = Some (player_id other)
           \<and> gameLog snapshot = (who @ '' left the game.'') # gameLog game))"
proof (intro conjI allI impI)
  fix game
  assume a: "map_of hs gameId = Some game
    \<and> filter (\<lambda>p. player_id p \<noteq> playerId) (players game) \<noteq> []"
  let ?rest = "filter (\<lambda>p. player_id p \<noteq> playerId) (players game)"
  let ?snapshot = "game\<lparr>players := ?rest, phase := Game_over,
      winner := Some (player_id (hd ?rest)),
      gameLog := (''Opponent'' @ '' left the game.'') # gameLog game\<rparr>"
  show "games (leave_game hs gameId playerId)
          = AList.update gameId (game\<lparr>players := ?rest\<rparr>) hs"
    using a by (simp add: leave_game_def Let_def)
  then show "map_of (fire (games (leave_game hs gameId playerId)) (Delete_game gameId)) gameId
      = None"
    by (simp add: map_of_delete_same)
  show "timers (leave_game hs gameId playerId) = [(5000, Delete_game gameId)]"
    using a by (simp add: leave_game_def Let_def)
  have "Emit (To_room gameId) (Game_state_update ?snapshot)
      \<in> set (effects (leave_game hs gameId playerId))"
    using a
    by (simp add: leave_game_def Let_def effects_broadcast find_filter_not nameOrOpponent_def)
  then show "\<exists>snapshot who.
      Emit (To_room gameId) (Game_state_update snapshot)
        \<in> set (effects (leave_game hs gameId playerId))
      \<and> players snapshot = ?rest \<and> phase snapshot = Game_over
      \<and> winner snapshot = Some (player_id (hd ?rest))
      \<and> gameLog snapshot = (who @ '' left the game.'') # gameLog game"
    by (intro exI [of _ ?snapshot] exI [of _ "''Opponent''"]) simp
next
  fix game
  assume a: "map_of hs gameId = Some game
    \<and> filter (\<lambda>p. player_id p \<noteq> playerId) (players game) = []"
  show "games (leave_game hs gameId playerId) = AList.delete gameId hs"
    using a by (simp add: leave_game_def Let_def)
  then show "map_of (games (leave_game hs gameId playerId)) gameId = None"
    by (simp add: map_of_delete_same)
  show "timers (leave_game hs gameId playerId) = []"
    using a by (simp add: leave_game_def Let_def)
next
  fix game
  assume a: "map_of gs gameId = Some game"
  show "games (leave_game_sim gs gameId playerId) = gs"
    using a by (simp add: leave_game_sim_def Let_def)
  then show "map_of (fire (games (leave_game_sim gs gameId playerId)) (Delete_game gameId))
      gameId = None"
    by (simp add: map_of_delete_same)
  show "timers (leave_game_sim gs gameId playerId) = [(5000, Delete_game gameId)]"
    using a by (simp add: leave_game_sim_def Let_def)
next
  fix game other
  assume a: "map_of gs gameId = Some game
        \<and> find (\<lambda>p. player_id p \<noteq> playerId) (players game) = Some other"
  let ?who = "nameOrOpponent (find (\<lambda>p. player_id p = playerId) (players game))"
  let ?snapshot = "game\<lparr>phase := Game_over, winner := Some (player_id other),
      gameLog := (?who @ '' left the game.'') # gameLog game\<rparr>"
  have "effects (leave_game_sim gs gameId playerId)
      = [Emit (To_room gameId) (Game_state_update ?snapshot), Socket_leave gameId]"
    using a by (simp add: leave_game_sim_def Let_def)
  then show "\<exists>snapshot who.
      effects (leave_game_sim gs gameId playerId)
        = [Emit (To_room gameId) (Game_state_update snapshot), Socket_leave gameId]
      \<and> players snapshot = players game \<and> phase snapshot = Game_over
      \<and> winner snapshot = Some (player_id other)
      \<and> gameLog snapshot = (who @ '' left the game.'') # gameLog game"
    by (intro exI [of _ ?snapshot] exI [of _ ?who]) simp
qed

theorem leave_game_effect_witness:
  "map_option (map player_id \<circ> players) (map_of two_player_alt ''ABC123'') = Some [''A'', ''B'']
   \<and> map_option (map player_id \<circ> players)
        (map_of (games (leave_game two_player_alt ''ABC123'' ''B'')) ''ABC123'') = Some [''A'']
   \<and> timers (leave_game two_player_alt ''ABC123'' ''B'') = [(5000, Delete_game ''ABC123'')]
   \<and> map_of (fire (games (leave_game two_player_alt ''ABC123'' ''B'')) (Delete_game ''ABC123''))
        ''ABC123'' = None
   \<and> games (leave_game two_player_alt ''ABC123'' ''A'') \<noteq> []
   \<and> games (leave_game (games (leave_game two_player_alt ''ABC123'' ''B'')) ''ABC123'' ''A'')
       = []
   \<and> games (leave_game_sim two_player_sim ''ABC123'' ''B'') = two_player_sim
   \<and> timers (leave_game_sim two_player_sim ''ABC123'' ''B'') = [(5000, Delete_game ''ABC123'')]"
proof -
  let ?g = "the (map_of two_player_alt ''ABC123'')"
  let ?hs1 = "games (leave_game two_player_alt ''ABC123'' ''B'')"
  let ?g1 = "the (map_of ?hs1 ''ABC123'')"
  let ?s = "the (map_of two_player_sim ''ABC123'')"
  have before: "map_option (map player_id \<circ> players) (map_of two_player_alt ''ABC123'')
      = Some [''A'', ''B'']"
    by (simp add: match_eval)
  have h1: "map_of two_player_alt ''ABC123'' = Some ?g
      \<and> filter (\<lambda>p. player_id p \<noteq> ''B'') (players ?g) \<noteq> []"
    by (simp add: match_eval)
  note r1 = leave_game_effect [of two_player_alt "''ABC123''" "''B''" two_player_sim,
      THEN conjunct1, rule_format, OF h1]
  have rem: "map (player_id) (filter (\<lambda>p. player_id p \<noteq> ''B'') (players ?g)) = [''A'']"
    by (simp add: match_eval)
  have after: "map_option (map player_id \<circ> players) (map_of ?hs1 ''ABC123'') = Some [''A'']"
    using r1 rem by (simp add: update_conv')
  have h2: "map_of ?hs1 ''ABC123'' = Some ?g1
      \<and> filter (\<lambda>p. player_id p \<noteq> ''A'') (players ?g1) = []"
    by (simp add: match_eval)
  note r2 = leave_game_effect [of ?hs1 "''ABC123''" "''A''" two_player_sim,
      THEN conjunct2, THEN conjunct1, rule_format, OF h2]
  have empty: "games (leave_game ?hs1 ''ABC123'' ''A'') = []"
    using r2 by (simp add: match_eval)
  have nonempty: "games (leave_game two_player_alt ''ABC123'' ''A'') \<noteq> []"
    by (simp add: match_eval)
  have h3: "map_of two_player_sim ''ABC123'' = Some ?s"
    by (simp add: match_eval)
  note r3 = leave_game_effect [of two_player_alt "''ABC123''" "''B''" two_player_sim,
      THEN conjunct2, THEN conjunct2, THEN conjunct1, rule_format, OF h3]
  show ?thesis using before after r1 empty nonempty r3 by (simp add: map_of_delete_same)
qed

subsection \<open>Session ids\<close>

text \<open>
  Claim C9.  Creating a session must never overwrite a stored one: the generated id has
  to differ from every id in the registry.  \<^verbatim>\<open>generateGameId\<close> reads only the random
  source and \<^verbatim>\<open>create_game\<close> stores without looking: when the random source repeats the
  value that produced \<^verbatim>\<open>ABC123\<close>, the session of Alice and Bob is replaced by a fresh
  session holding only Carol, in both variants.
\<close>

theorem create_game_overwrites_session:
  "generateGameId ''0.abc123xyz'' = ''ABC123''
   \<and> map_option (map player_id \<circ> players) (map_of two_player_alt ''ABC123'')
       = Some [''A'', ''B'']
   \<and> map_option (map player_id \<circ> players)
        (map_of (games (create_game two_player_alt ''0.abc123xyz'' ''C'' ''Carol'')) ''ABC123'')
       = Some [''C'']
   \<and> map_option phase
        (map_of (games (create_game two_player_alt ''0.abc123xyz'' ''C'' ''Carol'')) ''ABC123'')
       = Some Waiting
   \<and> map fst (games (create_game two_player_alt ''0.abc123xyz'' ''C'' ''Carol''))
       = [''ABC123'']
   \<and> map_option (map player_id \<circ> players) (map_of two_player_sim ''ABC123'')
       = Some [''A'', ''B'']
   \<and> map_option (map player_id \<circ> players)
        (map_of (games (create_game_sim two_player_sim ''0.abc123xyz'' ''C'' ''Carol''))
           ''ABC123'')
       = Some [''C'']
   \<and> map fst (games (create_game_sim two_player_sim ''0.abc123xyz'' ''C'' ''Carol''))
       = [''ABC123'']"
  by (simp add: match_eval)

subsection \<open>A winner only in phase \<^verbatim>\<open>game_over\<close>\<close>

text \<open>
  In the simultaneous variant the invariant holds after every run: players are never
  removed, so a session with a winner stays full, and a player without health stays
  without health, so every later resolution ends in \<^verbatim>\<open>game_over\<close> again.
\<close>

lemma list_all_update:
  "list_all (\<lambda>kg. P (snd kg)) gs \<Longrightarrow> P g \<Longrightarrow> list_all (\<lambda>kg. P (snd kg)) (AList.update k g gs)"
  by (induction gs) auto

lemma list_all_delete:
  "list_all (\<lambda>kg. P (snd kg)) gs \<Longrightarrow> list_all (\<lambda>kg. P (snd kg)) (AList.delete k gs)"
  by (induction gs) auto

lemma list_all_lookup:
  "list_all (\<lambda>kg. P (snd kg)) gs \<Longrightarrow> map_of gs k = Some g \<Longrightarrow> P g"
  by (induction gs) (auto split: if_splits)

lemma list_all_weaken:
  "list_all P xs \<Longrightarrow> (\<And>x. P x \<Longrightarrow> Q x) \<Longrightarrow> list_all Q xs"
  by (induction xs) auto

lemma all_settled_update: "all_settled gs \<Longrightarrow> settled g \<Longrightarrow> all_settled (AList.update k g gs)"
  unfolding all_settled_def by (rule list_all_update)

lemma all_settled_delete: "all_settled gs \<Longrightarrow> all_settled (AList.delete k gs)"
  unfolding all_settled_def by (rule list_all_delete)

lemma all_settled_lookup: "all_settled gs \<Longrightarrow> map_of gs k = Some g \<Longrightarrow> settled g"
  unfolding all_settled_def by (rule list_all_lookup)

lemma damage_at_least_5: "5 \<le> damage atk mult dfn jitter"
  by (simp add: damage_def)

lemma health_stays_zero: "h \<le> 0 \<Longrightarrow> max 0 (h - damage atk mult dfn jitter) \<le> (0::int)"
  using damage_at_least_5 [of atk mult dfn jitter] by simp

lemma settled_processBattle:
  assumes "settled game" and "processBattle game jitter1 jitter2 = Inr (game', es, ts)"
  shows "settled game'"
proof (cases "players game")
  case Nil
  with assms(2) show ?thesis by (simp add: processBattle_def)
next
  case (Cons p1 ps)
  show ?thesis
  proof (cases ps)
    case Nil
    with Cons assms(2) show ?thesis by (simp add: processBattle_def)
  next
    case (Cons p2 rest)
    let ?h1 = "max 0 (health p1 - damage (attack p2)
        (multiplier (getEffectivenessMultiplier (currentAttackType p2) (currentDefenseType p1)))
        (defense p1) jitter2)"
    let ?h2 = "max 0 (health p2 - damage (attack p1)
        (multiplier (getEffectivenessMultiplier (currentAttackType p1) (currentDefenseType p2)))
        (defense p2) jitter1)"
    have pl: "players game = p1 # p2 # rest" using \<open>players game = p1 # ps\<close> Cons by simp
    show ?thesis
    proof (cases "?h1 \<le> 0 \<or> ?h2 \<le> 0")
      case True
      with pl assms(2) show ?thesis
        by (auto simp: processBattle_def Let_def settled_def)
    next
      case False
      have "winner game = None"
      proof (rule ccontr)
        assume "winner game \<noteq> None"
        with assms(1) pl have "health p1 \<le> 0 \<or> health p2 \<le> 0"
          by (simp add: settled_def)
        then have "?h1 \<le> 0 \<or> ?h2 \<le> 0"
          using health_stays_zero by blast
        with False show False by simp
      qed
      with False pl assms(2) show ?thesis
        by (auto simp: processBattle_def Let_def settled_def)
    qed
  qed
qed

lemma settled_update_first:
  assumes "settled game" and "\<And>p. health (f p) = health p"
  shows "settled (game\<lparr>players := update_first P f (players game)\<rparr>)"
proof (cases "players game")
  case Nil
  with assms show ?thesis by (simp add: settled_def)
next
  case (Cons p1 ps)
  with assms show ?thesis
    by (cases ps) (auto simp: settled_def)
qed

lemma settled_turn_log:
  "settled game \<Longrightarrow> settled (game\<lparr>currentTurn := t, gameLog := l\<rparr>)"
  by (simp add: settled_def)

lemma all_settled_submit_move:
  assumes "all_settled gs"
  shows "all_settled (games (submit_move gs k p a d r1 r2))"
proof (cases "map_of gs k")
  case None
  with assms show ?thesis by (simp add: submit_move_def reply_error_def type_error_def getGame_def)
next
  case (Some game)
  have sg: "settled game" using assms Some unfolding all_settled_def by (rule list_all_lookup)
  let ?game1 = "game\<lparr>players := update_first (\<lambda>q. player_id q = p)
        (\<lambda>q. q\<lparr>currentAttackType := a, currentDefenseType := d, ready := True\<rparr>)
        (players game)\<rparr>"
  have s1: "settled ?game1" using sg by (rule settled_update_first) simp
  have upd: "\<And>g. settled g \<Longrightarrow> all_settled (AList.update k g gs)"
    using assms unfolding all_settled_def by (rule list_all_update)
  show ?thesis
  proof (cases "processBattle ?game1 r1 r2")
    case (Inl e)
    with Some assms s1 show ?thesis
      by (auto simp: submit_move_def reply_error_def type_error_def Let_def upd settled_turn_log
          split: Property.splits option.splits)
  next
    case (Inr res)
    obtain game2 es ts where res: "res = (game2, es, ts)" by (cases res)
    have "settled game2" using s1 Inr res settled_processBattle by blast
    with Some assms s1 Inr res show ?thesis
      by (auto simp: submit_move_def reply_error_def type_error_def Let_def upd settled_turn_log
          split: Property.splits option.splits)
  qed
qed

lemma all_settled_create_sim: "all_settled gs \<Longrightarrow> all_settled (games (create_game_sim gs r p n))"
  by (simp add: create_game_sim_def Let_def all_settled_update settled_def)

lemma all_settled_join_sim:
  assumes "all_settled gs"
  shows "all_settled (games (join_game_sim gs k p n))"
proof (cases "map_of gs k")
  case None
  with assms show ?thesis by (simp add: join_game_sim_def reply_error_def type_error_def getGame_def)
next
  case (Some game)
  have sg: "settled game" using assms Some unfolding all_settled_def by (rule list_all_lookup)
  show ?thesis
  proof (cases "length (players game) \<ge> 2")
    case True
    with Some assms show ?thesis by (simp add: join_game_sim_def reply_error_def type_error_def)
  next
    case False
    then have "winner game = None" using sg
      by (cases "players game"; cases "tl (players game)") (auto simp: settled_def)
    with Some False assms show ?thesis
      by (simp add: join_game_sim_def Let_def all_settled_update settled_def)
  qed
qed

lemma all_settled_handle_sim: "all_settled gs \<Longrightarrow> all_settled (games (handle_sim gs req))"
proof (cases req)
  case (Sim_timer task)
  assume "all_settled gs"
  then show ?thesis using Sim_timer
    by (cases task) (simp_all add: all_settled_delete)
qed (simp_all add: all_settled_create_sim all_settled_join_sim all_settled_submit_move
       get_available_games_sim_def leave_game_sim_def type_error_def Let_def split: Property.splits sum.splits option.splits)

lemma all_settled_run_sim: "all_settled (run_sim reqs)"
  unfolding run_sim_def
  by (induction reqs rule: rev_induct) (simp_all add: all_settled_def[of "[]"] all_settled_handle_sim)

lemma winner_only_when_over_sim: "winner_only_when_over (run_sim reqs)"
proof -
  have "list_all (\<lambda>kg. settled (snd kg)) (run_sim reqs)"
    using all_settled_run_sim by (simp add: all_settled_def)
  then show ?thesis
    unfolding winner_only_when_over_def
    by (rule list_all_weaken) (auto simp: settled_def)
qed

text \<open>
  In the alternating variant every handler other than \<^verbatim>\<open>join_game\<close> keeps the
  invariant, and so does every timer.
\<close>

lemma over_update:
  "winner_only_when_over gs \<Longrightarrow> winner g = None \<or> phase g = Game_over
   \<Longrightarrow> winner_only_when_over (AList.update k g gs)"
  unfolding winner_only_when_over_def by (rule list_all_update)

lemma over_delete: "winner_only_when_over gs \<Longrightarrow> winner_only_when_over (AList.delete k gs)"
  unfolding winner_only_when_over_def by (rule list_all_delete)

lemma over_lookup:
  "winner_only_when_over gs \<Longrightarrow> map_of gs k = Some g \<Longrightarrow> winner g = None \<or> phase g = Game_over"
  unfolding winner_only_when_over_def by (rule list_all_lookup)

lemma over_create: "winner_only_when_over gs \<Longrightarrow> winner_only_when_over (games (create_game gs r p n))"
  by (simp add: create_game_def Let_def over_update)

lemma over_submit_attack:
  assumes "winner_only_when_over gs"
  shows "winner_only_when_over (games (submit_attack gs k p a))"
proof (cases "map_of gs k")
  case None
  with assms show ?thesis by (simp add: submit_attack_def reply_error_def type_error_def getGame_def)
next
  case (Some game)
  have "winner game = None \<or> phase game = Game_over" using assms Some by (rule over_lookup)
  with assms Some show ?thesis
    by (auto simp: submit_attack_def reply_error_def type_error_def Let_def over_update split: Property.splits option.splits)
qed

lemma over_submit_defense:
  assumes "winner_only_when_over gs"
  shows "winner_only_when_over (games (submit_defense gs k p d r))"
proof (cases "map_of gs k")
  case None
  with assms show ?thesis by (simp add: submit_defense_def reply_error_def type_error_def getGame_def)
next
  case (Some game)
  have "winner game = None \<or> phase game = Game_over" using assms Some by (rule over_lookup)
  with assms Some show ?thesis
    by (auto simp: submit_defense_def reply_error_def type_error_def Let_def over_update split: Property.splits option.splits)
qed

lemma over_leave:
  assumes "winner_only_when_over gs"
  shows "winner_only_when_over (games (leave_game gs k p))"
proof (cases "map_of gs k")
  case None
  with assms show ?thesis by (simp add: leave_game_def getGame_def type_error_def)
next
  case (Some game)
  have "winner game = None \<or> phase game = Game_over" using assms Some by (rule over_lookup)
  with assms Some show ?thesis
    by (auto simp: leave_game_def Let_def over_update over_delete)
qed

lemma over_handle_alt_except_join:
  assumes "winner_only_when_over gs" and "\<And>k p n. req \<noteq> Alt_join k p n"
  shows "winner_only_when_over (games (handle_alt gs req))"
proof (cases req)
  case (Alt_join k p n)
  with assms(2) [of k p n] show ?thesis by simp
next
  case (Alt_timer task)
  with assms(1) show ?thesis by (cases task) (simp_all add: over_delete)
qed (use assms(1) in \<open>simp_all add: over_create over_submit_attack over_submit_defense over_leave
       get_available_games_def Let_def split: Property.splits sum.splits option.splits\<close>)

text \<open>
  Claim C10.  In every stored session the winner is set only while the phase is
  \<^verbatim>\<open>game_over\<close>.  The alternating variant breaks this: Alice beats Bob, Bob leaves, and
  Carol joins the finished session before it is deleted; \<^verbatim>\<open>join_game\<close> sets the phase
  back to selection and leaves the winner in place.
\<close>

theorem join_after_finish_keeps_winner:
  "map_option phase (map_of finished_then_rejoined ''ABC123'') = Some Selection
   \<and> map_option winner (map_of finished_then_rejoined ''ABC123'') = Some (Some ''A'')
   \<and> map_option (map player_id \<circ> players) (map_of finished_then_rejoined ''ABC123'')
       = Some [''A'', ''C'']
   \<and> \<not> winner_only_when_over finished_then_rejoined"
  by (simp add: finished_then_rejoined_def match_eval winner_only_when_over_def)

end
